theory Spec2Isabelle
  imports Complex_Main "HOL-Library.List_Lexorder" "HOL-Library.Char_ord"
begin

section \<open>Smart Session Planner: suggestion engine, progress aggregator, session creation\<close>

text \<open>
  The development embeds three parts of the planner's API:
  \<^item> \<^verbatim>\<open>api/app/model/suggestion.ts\<close> (slot generation, the five scoring factors,
    the conflict filter, ranking and the reason text),
  \<^item> \<^verbatim>\<open>api/app/model/progress.ts\<close> (the progress statistics),
  \<^item> the \<^verbatim>\<open>POST\<close> handler of \<^verbatim>\<open>api/app/api/sessions/route.ts\<close>.

  Conventions of the embedding.
  \<^item> A JavaScript \<^verbatim>\<open>Date\<close> is its time value, an \<open>int\<close> of milliseconds since the
    epoch. Only valid dates are modelled, and the range limit of \<^verbatim>\<open>Date\<close> is left out.
  \<^item> A JavaScript \<^verbatim>\<open>number\<close> that is not a time value is a \<open>rat\<close>: the arithmetic is
    exact, the rounding error of IEEE doubles is not modelled. \<^verbatim>\<open>Infinity\<close> occurs in
    the spacing score only and is \<open>None\<close> of an \<open>int option\<close> there.
  \<^item> Local time is UTC shifted by a constant offset \<open>tz\<close> (milliseconds east of UTC), a
    parameter of every function that reads the local clock; daylight-saving changes are not
    modelled. The current instant \<^verbatim>\<open>new Date()\<close> is the parameter \<open>now\<close>.
  \<^item> The functions of \<^verbatim>\<open>date-fns\<close> and \<^verbatim>\<open>ramda\<close> are libraries, modelled by what they
    compute: \<^verbatim>\<open>addHours\<close> adds \<open>amount * 3600000\<close> milliseconds, \<^verbatim>\<open>differenceInHours\<close> is
    the difference in milliseconds divided by \<open>3600000\<close> and truncated toward zero,
    \<^verbatim>\<open>R.sortBy\<close> is a stable sort by key, \<^verbatim>\<open>R.aperture(2)\<close> lists the consecutive pairs.
\<close>

subsection \<open>Data model\<close>

type_synonym date = int

record SessionType =
  st_id :: string
  st_name :: string
  st_category :: string
  priority :: int

record Session =
  s_id :: string
  sessionTypeId :: string
  sessionType :: SessionType
  startTime :: date
  endTime :: date
  completed :: bool

record AvailabilityWindow =
  w_id :: string
  dayOfWeek :: int
  w_startTime :: string
  w_endTime :: string

record SessionSuggestion =
  sg_sessionTypeId :: string
  sg_startTime :: date
  sg_endTime :: date
  reason :: string
  score :: int

subsection \<open>Dates: the library primitives\<close>

definition MS_PER_MINUTE :: int where
  "MS_PER_MINUTE = 60000"

definition MS_PER_HOUR :: int where
  "MS_PER_HOUR = 3600000"

definition MS_PER_DAY :: int where
  "MS_PER_DAY = 86400000"

text \<open>
  \<^verbatim>\<open>addHours(d, amount)\<close> is \<^verbatim>\<open>new Date(+d + amount * 3600000)\<close>; the constructor drops
  the fraction of a millisecond (toward zero). The amount may be fractional: the engine
  calls it with \<^verbatim>\<open>durationMinutes / 60\<close> and with \<^verbatim>\<open>0.5\<close>.
\<close>

definition timeClip :: "rat \<Rightarrow> int" where
  "timeClip x = (if 0 \<le> x then \<lfloor>x\<rfloor> else \<lceil>x\<rceil>)"

definition addHours :: "date \<Rightarrow> rat \<Rightarrow> date" where
  "addHours d amount = timeClip (of_int d + amount * of_int MS_PER_HOUR)"

text \<open>\<^verbatim>\<open>differenceInHours(a, b)\<close>: whole hours from \<open>b\<close> to \<open>a\<close>, truncated toward zero.\<close>

definition differenceInHours :: "date \<Rightarrow> date \<Rightarrow> int" where
  "differenceInHours a b =
     (if b \<le> a then (a - b) div MS_PER_HOUR else - ((b - a) div MS_PER_HOUR))"

text \<open>The local clock: milliseconds since local midnight, weekday (0 = Sunday), hour, minute.\<close>

definition msOfDay :: "int \<Rightarrow> date \<Rightarrow> int" where
  "msOfDay tz d = (d + tz) mod MS_PER_DAY"

definition getDay :: "int \<Rightarrow> date \<Rightarrow> int" where
  "getDay tz d = ((d + tz) div MS_PER_DAY + 4) mod 7"

definition getHours :: "int \<Rightarrow> date \<Rightarrow> int" where
  "getHours tz d = msOfDay tz d div MS_PER_HOUR"

definition getMinutes :: "int \<Rightarrow> date \<Rightarrow> int" where
  "getMinutes tz d = (msOfDay tz d mod MS_PER_HOUR) div MS_PER_MINUTE"

text \<open>\<^verbatim>\<open>d.setHours(h, m, s, ms)\<close>: the same local calendar day, at the given local time.\<close>

definition setHours :: "int \<Rightarrow> date \<Rightarrow> int \<Rightarrow> int \<Rightarrow> int \<Rightarrow> int \<Rightarrow> date" where
  "setHours tz d h m s ms =
     d - msOfDay tz d + h * MS_PER_HOUR + m * MS_PER_MINUTE + s * 1000 + ms"

text \<open>\<^verbatim>\<open>Math.round\<close>: to the nearest integer, a tie goes up.\<close>

definition Math_round :: "rat \<Rightarrow> int" where
  "Math_round x = \<lfloor>x + 1 / 2\<rfloor>"

subsection \<open>The two overlap tests\<close>

text \<open>
  The conflict test of \<^verbatim>\<open>generateSuggestions\<close> (three disjuncts), for a candidate
  \<open>[startT, endT)\<close> and a session \<open>[sessionStart, sessionEnd)\<close>.
\<close>

definition conflictsWith :: "date \<Rightarrow> date \<Rightarrow> date \<Rightarrow> date \<Rightarrow> bool" where
  "conflictsWith startT endT sessionStart sessionEnd \<longleftrightarrow>
     (startT \<ge> sessionStart \<and> startT < sessionEnd) \<or>
     (endT > sessionStart \<and> endT \<le> sessionEnd) \<or>
     (startT \<le> sessionStart \<and> endT \<ge> sessionEnd)"

text \<open>
  The \<^verbatim>\<open>where\<close> clause of the conflict query of the session routes:
  \<^verbatim>\<open>startTime: { lt: endTime }, endTime: { gt: startTime }\<close>.
\<close>

definition routeOverlap :: "date \<Rightarrow> date \<Rightarrow> date \<Rightarrow> date \<Rightarrow> bool" where
  "routeOverlap startT endT sessionStart sessionEnd \<longleftrightarrow>
     sessionStart < endT \<and> sessionEnd > startT"

subsection \<open>Strings: formatting and parsing clock times\<close>

definition digitChar :: "int \<Rightarrow> char" where
  "digitChar n = char_of (48 + n)"

text \<open>\<^verbatim>\<open>format(d, "HH:mm")\<close>: local hour and minute, two digits each.\<close>

definition pad2 :: "int \<Rightarrow> string" where
  "pad2 n = [digitChar (n div 10), digitChar (n mod 10)]"

definition format_HHmm :: "int \<Rightarrow> date \<Rightarrow> string" where
  "format_HHmm tz d = pad2 (getHours tz d) @ '':'' @ pad2 (getMinutes tz d)"

text \<open>Decimal rendering of a natural number, as a template literal prints it.\<close>

fun showNat :: "nat \<Rightarrow> string" where
  "showNat n =
     (if n < 10 then [digitChar (int n)]
      else showNat (n div 10) @ [digitChar (int (n mod 10))])"

text \<open>
  A number \<open>k / 10\<close> with \<open>k \<ge> 0\<close>, as a template literal prints it: no fraction
  when it is whole (\<^verbatim>\<open>2\<close>, not \<^verbatim>\<open>2.0\<close>), one decimal otherwise.
\<close>

definition showTenths :: "int \<Rightarrow> string" where
  "showTenths k =
     showNat (nat (k div 10)) @ (if k mod 10 = 0 then [] else ''.'' @ [digitChar (k mod 10)])"

text \<open>\<^verbatim>\<open>s.split(":")\<close>.\<close>

fun split_colon :: "string \<Rightarrow> string list" where
  "split_colon [] = [[]]"
| "split_colon (c # cs) =
     (if c = CHR '':'' then [] # split_colon cs
      else (case split_colon cs of
              [] \<Rightarrow> [[c]]
            | p # ps \<Rightarrow> (c # p) # ps))"

text \<open>
  \<^verbatim>\<open>Number(s)\<close> on the strings the availability route stores (it accepts only
  \<^verbatim>\<open>/^([0-1][0-9]|2[0-3]):[0-5][0-9]$/\<close>): a run of decimal digits is its value, the empty
  string is 0, and anything else is \<open>None\<close>, standing for \<^verbatim>\<open>NaN\<close>. The other spellings
  JavaScript accepts (signs, blanks, fractions, exponents, hexadecimal) are not modelled.
\<close>

definition isDigit :: "char \<Rightarrow> bool" where
  "isDigit c \<longleftrightarrow> CHR ''0'' \<le> c \<and> c \<le> CHR ''9''"

definition Number_dec :: "string \<Rightarrow> int option" where
  "Number_dec s =
     (if list_all isDigit s then Some (foldl (\<lambda>acc c. 10 * acc + (of_char c - 48)) 0 s)
      else None)"

text \<open>
  \<^verbatim>\<open>const [hour, minute] = t.split(":").map(Number)\<close>; \<open>None\<close> when either is
  \<^verbatim>\<open>NaN\<close> or missing, which makes the date set from them invalid.
\<close>

definition parseHourMinute :: "string \<Rightarrow> (int \<times> int) option" where
  "parseHourMinute t =
     (case map Number_dec (split_colon t) of
        Some h # Some m # _ \<Rightarrow> Some (h, m)
      | _ \<Rightarrow> None)"

subsection \<open>suggestion.ts: configuration constants\<close>

definition MIN_SPACING_HOURS :: int where
  "MIN_SPACING_HOURS = 2"

definition IDEAL_SPACING_HOURS :: int where
  "IDEAL_SPACING_HOURS = 24"

definition MAX_SESSIONS_PER_DAY :: nat where
  "MAX_SESSIONS_PER_DAY = 4"

definition HIGH_PRIORITY_THRESHOLD :: int where
  "HIGH_PRIORITY_THRESHOLD = 4"

subsection \<open>suggestion.ts: the five scoring factors\<close>

text \<open>
  A spacing in whole hours or \<^verbatim>\<open>Infinity\<close> (\<open>None\<close>); \<^verbatim>\<open>Math.min\<close> over two such
  values and over a list (\<^verbatim>\<open>Math.min()\<close> of no argument is \<^verbatim>\<open>Infinity\<close>).
\<close>

fun min_inf :: "int option \<Rightarrow> int option \<Rightarrow> int option" where
  "min_inf None y = y"
| "min_inf x None = x"
| "min_inf (Some a) (Some b) = Some (min a b)"

definition Math_min :: "int option list \<Rightarrow> int option" where
  "Math_min xs = foldr min_inf xs None"

definition sessionSpacing :: "date \<Rightarrow> date \<Rightarrow> Session \<Rightarrow> int option" where
  "sessionSpacing proposedStart proposedEnd session =
     (let distanceBefore = differenceInHours proposedStart (endTime session);
          distanceAfter = differenceInHours (startTime session) proposedEnd
      in min_inf (if distanceBefore > 0 then Some distanceBefore else None)
                 (if distanceAfter > 0 then Some distanceAfter else None))"

text \<open>
  With \<open>minSpacing = Infinity\<close> the test \<^verbatim>\<open>minSpacing < MIN_SPACING_HOURS\<close> is false and
  \<^verbatim>\<open>Math.min(100, (Infinity / 24) * 100)\<close> is 100.
\<close>

definition calculateSpacingScore :: "date \<Rightarrow> date \<Rightarrow> Session list \<Rightarrow> rat" where
  "calculateSpacingScore proposedStart proposedEnd existingSessions =
     (if length existingSessions = 0 then 100
      else
        (let spacings = map (sessionSpacing proposedStart proposedEnd) existingSessions;
             minSpacing = Math_min spacings
         in case minSpacing of
              None \<Rightarrow> 100
            | Some m \<Rightarrow>
                if m < MIN_SPACING_HOURS then 0
                else min 100 ((of_int m / of_int IDEAL_SPACING_HOURS) * 100)))"

definition calculatePriorityScore :: "int \<Rightarrow> rat" where
  "calculatePriorityScore p = (of_int p / 5) * 100"

definition calculateDayLoadScore :: "int \<Rightarrow> date \<Rightarrow> Session list \<Rightarrow> rat" where
  "calculateDayLoadScore tz proposedDate existingSessions =
     (let dayStart = setHours tz proposedDate 0 0 0 0;
          dayEnd = setHours tz proposedDate 23 59 59 999;
          sessionsOnDay =
            filter (\<lambda>session. startTime session \<ge> dayStart \<and> startTime session \<le> dayEnd)
              existingSessions
      in if length sessionsOnDay \<ge> MAX_SESSIONS_PER_DAY then 20
         else 100 - of_nat (length sessionsOnDay) * 15)"

definition calculateAvailabilityScore ::
  "int \<Rightarrow> date \<Rightarrow> date \<Rightarrow> AvailabilityWindow list \<Rightarrow> rat" where
  "calculateAvailabilityScore tz proposedStart proposedEnd availabilityWindows =
     (let day = getDay tz proposedStart;
          startTimeStr = format_HHmm tz proposedStart;
          endTimeStr = format_HHmm tz proposedEnd;
          matchingWindows = filter (\<lambda>w. dayOfWeek w = day) availabilityWindows
      in if length matchingWindows = 0 then 50
         else if list_ex (\<lambda>w. startTimeStr \<ge> w_startTime w \<and> endTimeStr \<le> w_endTime w)
                   matchingWindows then 100
         else if list_ex (\<lambda>w. (startTimeStr \<ge> w_startTime w \<and> startTimeStr < w_endTime w) \<or>
                                (endTimeStr > w_startTime w \<and> endTimeStr \<le> w_endTime w))
                   matchingWindows then 50
         else 0)"

definition calculateFatigueScore :: "date \<Rightarrow> int \<Rightarrow> Session list \<Rightarrow> rat" where
  "calculateFatigueScore proposedStart sessionTypePriority existingSessions =
     (if sessionTypePriority < HIGH_PRIORITY_THRESHOLD then 100
      else
        (let windowStart = addHours proposedStart (- 48);
             windowEnd = addHours proposedStart 48;
             nearbyHighPrioritySessions =
               filter (\<lambda>session. startTime session \<ge> windowStart \<and>
                                  startTime session \<le> windowEnd \<and>
                                  priority (sessionType session) \<ge> HIGH_PRIORITY_THRESHOLD)
                 existingSessions
         in if length nearbyHighPrioritySessions \<ge> 3 then 30
            else if length nearbyHighPrioritySessions \<ge> 2 then 60
            else 100))"

definition scoreTimeSlot ::
  "int \<Rightarrow> date \<Rightarrow> date \<Rightarrow> SessionType \<Rightarrow> Session list \<Rightarrow> AvailabilityWindow list \<Rightarrow> rat" where
  "scoreTimeSlot tz startT endT sessionType' existingSessions availabilityWindows =
     (let spacingScore = calculateSpacingScore startT endT existingSessions;
          priorityScore = calculatePriorityScore (priority sessionType');
          dayLoadScore = calculateDayLoadScore tz startT existingSessions;
          availabilityScore = calculateAvailabilityScore tz startT endT availabilityWindows;
          fatigueScore = calculateFatigueScore startT (priority sessionType') existingSessions
      in spacingScore * (3 / 10) +
         priorityScore * (15 / 100) +
         dayLoadScore * (2 / 10) +
         availabilityScore * (25 / 100) +
         fatigueScore * (1 / 10))"

subsection \<open>suggestion.ts: slot generation\<close>

text \<open>
  The loop \<^verbatim>\<open>while (addHours(currentTime, durationMinutes / 60) <= windowEnd)\<close>, which
  pushes \<open>currentTime\<close> and advances it by half an hour.
\<close>

function slotsFrom :: "date \<Rightarrow> int \<Rightarrow> date \<Rightarrow> date list" where
  "slotsFrom currentTime durationMinutes windowEnd =
     (if addHours currentTime (of_int durationMinutes / 60) \<le> windowEnd
      then currentTime # slotsFrom (addHours currentTime (1 / 2)) durationMinutes windowEnd
      else [])"
  by pat_completeness auto
termination
proof (relation "measure (\<lambda>(c, m, e). nat (e - (c + m * 60000) + 1))")
  show "wf (measure (\<lambda>(c, m, e). nat (e - (c + m * 60000) + 1)))"
    by simp
next
  fix currentTime :: date and durationMinutes :: int and windowEnd :: date
  have t: "timeClip (rat_of_int n) = n" for n
    by (simp add: timeClip_def)
  have "rat_of_int currentTime + rat_of_int durationMinutes / 60 * rat_of_int MS_PER_HOUR
          = rat_of_int (currentTime + durationMinutes * 60000)"
    by (simp add: MS_PER_HOUR_def)
  then have a: "addHours currentTime (of_int durationMinutes / 60)
                  = currentTime + durationMinutes * 60000"
    unfolding addHours_def by (simp only: t)
  have "rat_of_int currentTime + 1 / 2 * rat_of_int MS_PER_HOUR
          = rat_of_int (currentTime + 1800000)"
    by (simp add: MS_PER_HOUR_def)
  then have b: "addHours currentTime (1 / 2) = currentTime + 1800000"
    unfolding addHours_def by (simp only: t)
  assume "addHours currentTime (of_int durationMinutes / 60) \<le> windowEnd"
  then show "((addHours currentTime (1 / 2), durationMinutes, windowEnd),
              (currentTime, durationMinutes, windowEnd))
             \<in> measure (\<lambda>(c, m, e). nat (e - (c + m * 60000) + 1))"
    unfolding a b by simp
qed

text \<open>The slots of one availability window on the day of \<open>d\<close>.\<close>

definition windowSlots :: "int \<Rightarrow> date \<Rightarrow> int \<Rightarrow> AvailabilityWindow \<Rightarrow> date list" where
  "windowSlots tz d durationMinutes w =
     (case (parseHourMinute (w_startTime w), parseHourMinute (w_endTime w)) of
        (Some (startHour, startMinute), Some (endHour, endMinute)) \<Rightarrow>
          (let windowStart = setHours tz d startHour startMinute 0 0;
               windowEnd = setHours tz d endHour endMinute 0 0
           in slotsFrom windowStart durationMinutes windowEnd)
      | _ \<Rightarrow> [])"

definition generateTimeSlots ::
  "int \<Rightarrow> date \<Rightarrow> int \<Rightarrow> AvailabilityWindow list \<Rightarrow> date list" where
  "generateTimeSlots tz d durationMinutes availabilityWindows =
     (let day = getDay tz d;
          windows = filter (\<lambda>w. dayOfWeek w = day) availabilityWindows
      in if length windows = 0
         then
           (let defaultStart = setHours tz d 6 0 0 0;
                defaultEnd = setHours tz d 22 0 0 0
            in slotsFrom defaultStart durationMinutes defaultEnd)
         else concat (map (windowSlots tz d durationMinutes) windows))"

subsection \<open>suggestion.ts: the reason text\<close>

text \<open>\<^verbatim>\<open>reasons.join(". ")\<close>.\<close>

fun join_dot :: "string list \<Rightarrow> string" where
  "join_dot [] = []"
| "join_dot [r] = r"
| "join_dot (r # rs) = r @ ''. '' @ join_dot rs"

text \<open>
  The spacing clause. \<^verbatim>\<open>Math.min(...spacings)\<close> of a non-empty list is its least
  element. Nothing is pushed when sessions of the type exist and \<open>spacings\<close> is empty.
\<close>

definition spacingReasons :: "date \<Rightarrow> Session list \<Rightarrow> string \<Rightarrow> string list" where
  "spacingReasons startT existingSessions sessionTypeId' =
     (let sameTypeSessions = filter (\<lambda>session. sessionTypeId session = sessionTypeId') existingSessions
      in case sameTypeSessions of
           [] \<Rightarrow> [''First session of this type'']
         | first # _ \<Rightarrow>
             (let spacings =
                    filter (\<lambda>h. h > 0)
                      (map (\<lambda>session. differenceInHours startT (endTime session)) sameTypeSessions)
              in if length spacings > 0
                 then
                   (let minSpacing = Min (set spacings)
                    in if minSpacing \<ge> 24
                       then
                         (let tenths = Math_round ((of_int minSpacing / 24) * 10)
                          in [''Good spacing ('' @ showTenths tenths @ '' days since last '' @
                                st_name (sessionType first) @ '')''])
                       else [''Good spacing ('' @ showNat (nat (Math_round (of_int minSpacing))) @
                                '' hours since last '' @ st_name (sessionType first) @ '')''])
                 else []))"

definition focusReasons :: "int \<Rightarrow> date \<Rightarrow> string list" where
  "focusReasons tz startT =
     (let hour = getHours tz startT
      in if hour \<ge> 6 \<and> hour < 12 then [''Uses your morning focus window'']
         else if hour \<ge> 18 \<and> hour < 22 then [''Uses your evening focus window'']
         else [])"

definition priorityReasons :: "int \<Rightarrow> string list" where
  "priorityReasons p = (if p \<ge> HIGH_PRIORITY_THRESHOLD then [''High priority session''] else [])"

definition generateReason ::
  "int \<Rightarrow> date \<Rightarrow> rat \<Rightarrow> int \<Rightarrow> Session list \<Rightarrow> string \<Rightarrow> string" where
  "generateReason tz startT score' priority' existingSessions sessionTypeId' =
     (let reasons = spacingReasons startT existingSessions sessionTypeId' @
                    focusReasons tz startT @
                    priorityReasons priority'
      in if length reasons > 0 then join_dot reasons else ''Good time slot available'')"

subsection \<open>suggestion.ts: generateSuggestions\<close>

definition hasConflict :: "date \<Rightarrow> date \<Rightarrow> Session list \<Rightarrow> bool" where
  "hasConflict startT endT existingSessions =
     list_ex (\<lambda>session. conflictsWith startT endT (startTime session) (endTime session))
       existingSessions"

text \<open>
  The body of \<^verbatim>\<open>timeSlots.forEach\<close>: the suggestions one slot appends (none or one). The
  \<^verbatim>\<open>startTime\<close> and \<^verbatim>\<open>endTime\<close> of a suggestion are ISO strings of the two instants;
  the model keeps the instants.
\<close>

definition slotSuggestions ::
  "int \<Rightarrow> SessionType \<Rightarrow> Session list \<Rightarrow> AvailabilityWindow list \<Rightarrow> int \<Rightarrow> date
     \<Rightarrow> SessionSuggestion list" where
  "slotSuggestions tz sessionType' existingSessions availabilityWindows durationMinutes startT =
     (let endT = addHours startT (of_int durationMinutes / 60)
      in if hasConflict startT endT existingSessions then []
         else
           (let score' = scoreTimeSlot tz startT endT sessionType' existingSessions availabilityWindows
            in if score' \<ge> 30
               then [\<lparr> sg_sessionTypeId = st_id sessionType',
                       sg_startTime = startT,
                       sg_endTime = endT,
                       reason = generateReason tz startT score' (priority sessionType')
                                  existingSessions (st_id sessionType'),
                       score = Math_round score' \<rparr>]
               else []))"

text \<open>All suggestions pushed by the loop over the days, in the order they are pushed.\<close>

definition allSuggestions ::
  "int \<Rightarrow> date \<Rightarrow> SessionType \<Rightarrow> Session list \<Rightarrow> AvailabilityWindow list \<Rightarrow> int \<Rightarrow> int
     \<Rightarrow> SessionSuggestion list" where
  "allSuggestions tz now sessionType' existingSessions availabilityWindows durationMinutes lookAheadDays =
     (let today = setHours tz now 0 0 0 0
      in concat (map (\<lambda>dayOffset.
           (let d = addHours today (of_int (dayOffset * 24));
                timeSlots = generateTimeSlots tz d durationMinutes availabilityWindows
            in concat (map (slotSuggestions tz sessionType' existingSessions availabilityWindows
                              durationMinutes) timeSlots)))
           [0 .. lookAheadDays - 1]))"

definition generateSuggestions ::
  "int \<Rightarrow> date \<Rightarrow> SessionType \<Rightarrow> Session list \<Rightarrow> AvailabilityWindow list \<Rightarrow> int \<Rightarrow> int
     \<Rightarrow> SessionSuggestion list" where
  "generateSuggestions tz now sessionType' existingSessions availabilityWindows durationMinutes lookAheadDays =
     take 10 (sort_key (\<lambda>s. - score s)
       (allSuggestions tz now sessionType' existingSessions availabilityWindows
          durationMinutes lookAheadDays))"

subsection \<open>progress.ts\<close>









subsection \<open>sessions/route.ts: POST\<close>

text \<open>
  The persistence layer as a state: the stored session types and sessions. The handler
  takes the state and returns the response with the new state.
\<close>

record Database =
  db_sessionTypes :: "SessionType list"
  db_sessions :: "Session list"

text \<open>
  The request body after \<^verbatim>\<open>parseISO\<close>: a time that does not parse is an invalid date,
  \<open>None\<close> here.
\<close>

record CreateSessionRequest =
  req_sessionTypeId :: string
  req_startTime :: "date option"
  req_endTime :: "date option"

datatype ResponseBody =
  ErrorBody string
| ConflictBody string "Session list"
| SessionBody Session

type_synonym Response = "nat \<times> ResponseBody"

text \<open>\<^verbatim>\<open>isAfter(a, b)\<close>; false when either date is invalid.\<close>

fun isAfter :: "date option \<Rightarrow> date option \<Rightarrow> bool" where
  "isAfter (Some a) (Some b) = (a > b)"
| "isAfter _ _ = False"

text \<open>
  \<open>newId\<close> is the identifier the database gives the new row. A body that cannot be read
  (\<open>None\<close>) throws inside \<^verbatim>\<open>try\<close> and is answered with status 500; failures of the
  database itself are not modelled. Past the \<^verbatim>\<open>isAfter\<close> check both dates are valid, so
  the last case of the inner \<open>case\<close> is never taken.
\<close>

definition POST :: "string \<Rightarrow> Database \<Rightarrow> CreateSessionRequest option \<Rightarrow> Response \<times> Database" where
  "POST newId db request =
     (case request of
        None \<Rightarrow> ((500, ErrorBody ''Failed to create session''), db)
      | Some body \<Rightarrow>
          (case find (\<lambda>t. st_id t = req_sessionTypeId body) (db_sessionTypes db) of
             None \<Rightarrow> ((404, ErrorBody ''Session type not found''), db)
           | Some sessionType' \<Rightarrow>
               if \<not> isAfter (req_endTime body) (req_startTime body)
               then ((400, ErrorBody ''End time must be after start time''), db)
               else
                 (case (req_startTime body, req_endTime body) of
                    (Some startT, Some endT) \<Rightarrow>
                      (let conflictingSessions =
                             filter (\<lambda>s. startTime s < endT \<and> endTime s > startT) (db_sessions db)
                       in if length conflictingSessions > 0
                          then ((409, ConflictBody ''Session conflicts with existing sessions''
                                        conflictingSessions), db)
                          else
                            (let session = \<lparr> s_id = newId,
                                               sessionTypeId = req_sessionTypeId body,
                                               sessionType = sessionType',
                                               startTime = startT,
                                               endTime = endT,
                                               completed = False \<rparr>
                             in ((201, SessionBody session),
                                 db\<lparr> db_sessions := db_sessions db @ [session] \<rparr>)))
                  | _ \<Rightarrow> ((400, ErrorBody ''End time must be after start time''), db))))"

subsection \<open>Example data\<close>

text \<open>
  The fixtures of \<^verbatim>\<open>suggestion.test.ts\<close>: a session type of priority 5, a Monday window
  09:00 to 17:00 and a meeting on Monday 2024-01-15 from 10:00 to 11:00 UTC. The clock of
  the examples is UTC (\<open>tz = 0\<close>) and \<open>monday\<close> is 2024-01-15 00:00 UTC.
\<close>

definition mockSessionType :: SessionType where
  "mockSessionType =
     \<lparr> st_id = ''type-1'', st_name = ''Deep Work'', st_category = ''Work'', priority = 5 \<rparr>"

definition meetingType :: SessionType where
  "meetingType =
     \<lparr> st_id = ''type-2'', st_name = ''Meeting'', st_category = ''Work'', priority = 3 \<rparr>"

definition existingSession :: Session where
  "existingSession =
     \<lparr> s_id = ''session-1'', sessionTypeId = ''type-2'', sessionType = meetingType,
       startTime = 1705312800000, endTime = 1705316400000, completed = False \<rparr>"

definition mockAvailabilityWindows :: "AvailabilityWindow list" where
  "mockAvailabilityWindows =
     [\<lparr> w_id = ''avail-1'', dayOfWeek = 1, w_startTime = ''09:00'', w_endTime = ''17:00'' \<rparr>]"

definition monday :: date where
  "monday = 1705276800000"

definition mondaySuggestions :: "SessionSuggestion list" where
  "mondaySuggestions =
     generateSuggestions 0 monday mockSessionType [existingSession] mockAvailabilityWindows 60 1"



text \<open>The state of the session routes with the two session types and the one meeting.\<close>

definition exampleDatabase :: Database where
  "exampleDatabase =
     \<lparr> db_sessionTypes = [mockSessionType, meetingType], db_sessions = [existingSession] \<rparr>"

text \<open>
  Two create requests for the type \<open>type-1\<close>: Monday 10:30 to 11:30 UTC, which overlaps
  the meeting, and Monday 12:00 to 13:00 UTC, which does not.
\<close>

definition overlappingRequest :: CreateSessionRequest where
  "overlappingRequest =
     \<lparr> req_sessionTypeId = ''type-1'',
       req_startTime = Some 1705314600000, req_endTime = Some 1705318200000 \<rparr>"

definition laterRequest :: CreateSessionRequest where
  "laterRequest =
     \<lparr> req_sessionTypeId = ''type-1'',
       req_startTime = Some 1705320000000, req_endTime = Some 1705323600000 \<rparr>"

subsection \<open>The average spacing as the specification words it\<close>


section \<open>Properties\<close>

subsection \<open>Library primitives\<close>

lemma timeClip_of_int: "timeClip (rat_of_int n) = n"
  by (simp add: timeClip_def)

lemma addHours_minutes: "addHours d (of_int m / 60) = d + m * MS_PER_MINUTE"
proof -
  have "rat_of_int d + rat_of_int m / 60 * rat_of_int MS_PER_HOUR
          = rat_of_int (d + m * MS_PER_MINUTE)"
    by (simp add: MS_PER_HOUR_def MS_PER_MINUTE_def)
  then show ?thesis
    unfolding addHours_def by (simp only: timeClip_of_int)
qed

lemma addHours_half: "addHours d (1 / 2) = d + 30 * MS_PER_MINUTE"
proof -
  have "rat_of_int d + 1 / 2 * rat_of_int MS_PER_HOUR = rat_of_int (d + 30 * MS_PER_MINUTE)"
    by (simp add: MS_PER_HOUR_def MS_PER_MINUTE_def)
  then show ?thesis
    unfolding addHours_def by (simp only: timeClip_of_int)
qed

lemma differenceInHours_pos_iff: "differenceInHours a b > 0 \<longleftrightarrow> b + MS_PER_HOUR \<le> a"
proof (cases "b \<le> a")
  case True
  have "0 < (a - b) div MS_PER_HOUR \<longleftrightarrow> MS_PER_HOUR \<le> a - b"
    unfolding MS_PER_HOUR_def by (rule pos_imp_zdiv_pos_iff) simp
  with True show ?thesis
    by (simp add: differenceInHours_def) linarith
next
  case False
  then have "0 \<le> (b - a) div MS_PER_HOUR"
    by (simp add: MS_PER_HOUR_def pos_imp_zdiv_nonneg_iff)
  with False show ?thesis
    by (simp add: differenceInHours_def MS_PER_HOUR_def)
qed


subsection \<open>The overlap tests\<close>

lemma no_conflict_disjoint:
  assumes "\<not> conflictsWith a b c d"
  shows "{a ..< b} \<inter> {c ..< d} = {}"
proof -
  from assms have "b \<le> c \<or> d \<le> a"
    unfolding conflictsWith_def by linarith
  then show ?thesis by auto
qed

lemma touching_no_conflict:
  assumes "a < b" and "c < d" and "a = d \<or> b = c"
  shows "\<not> conflictsWith a b c d"
  using assms unfolding conflictsWith_def by linarith

text \<open>
  Claim C9. For two intervals of positive duration, the three-disjunct conflict test of the
  suggestion engine holds exactly when the overlap test of the session-create route holds.
\<close>

theorem overlap_tests_equivalent:
  assumes "startT < endT" and "sessionStart < sessionEnd"
  shows "conflictsWith startT endT sessionStart sessionEnd
           \<longleftrightarrow> routeOverlap startT endT sessionStart sessionEnd"
  using assms unfolding routeOverlap_def conflictsWith_def by linarith

theorem overlap_tests_equivalent_witness:
  "(1705314600000 :: int) < 1705318200000 \<and> (1705312800000 :: int) < 1705316400000 \<and>
   conflictsWith 1705314600000 1705318200000 1705312800000 1705316400000 \<and>
   routeOverlap 1705314600000 1705318200000 1705312800000 1705316400000"
  using overlap_tests_equivalent [of 1705314600000 1705318200000 1705312800000 1705316400000]
  by (simp add: routeOverlap_def)

subsection \<open>What a returned suggestion went through\<close>

lemma slotSuggestions_elem:
  assumes "sg \<in> set (slotSuggestions tz ty ex ws dur st)"
  shows "sg_startTime sg = st"
    and "sg_endTime sg = st + dur * MS_PER_MINUTE"
    and "\<not> hasConflict st (st + dur * MS_PER_MINUTE) ex"
    and "scoreTimeSlot tz st (st + dur * MS_PER_MINUTE) ty ex ws \<ge> 30"
    and "score sg = Math_round (scoreTimeSlot tz st (st + dur * MS_PER_MINUTE) ty ex ws)"
  using assms
  by (auto simp: slotSuggestions_def Let_def addHours_minutes split: if_splits)

lemma allSuggestions_elem:
  assumes "sg \<in> set (allSuggestions tz now ty ex ws dur look)"
  shows "\<exists>st. sg \<in> set (slotSuggestions tz ty ex ws dur st)"
  using assms by (auto simp: allSuggestions_def Let_def)

lemma generateSuggestions_subset:
  "set (generateSuggestions tz now ty ex ws dur look) \<subseteq> set (allSuggestions tz now ty ex ws dur look)"
proof -
  have "set (generateSuggestions tz now ty ex ws dur look)
          \<subseteq> set (sort_key (\<lambda>s. - score s) (allSuggestions tz now ty ex ws dur look))"
    unfolding generateSuggestions_def by (rule set_take_subset)
  then show ?thesis by simp
qed

lemma generateSuggestions_elem:
  assumes "sg \<in> set (generateSuggestions tz now ty ex ws dur look)"
  shows "\<exists>st. sg \<in> set (slotSuggestions tz ty ex ws dur st)"
  using assms generateSuggestions_subset allSuggestions_elem by blast

lemma mondaySuggestions_nonempty: "mondaySuggestions \<noteq> []"
  unfolding mondaySuggestions_def by code_simp

subsection \<open>No returned slot overlaps an existing session\<close>

text \<open>
  Claim C1. Whatever the session type, the existing sessions, the availability windows, the
  duration and the look-ahead, the interval \<open>[startTime, startTime + durationMinutes)\<close> of
  every suggestion that \<open>generateSuggestions\<close> returns is disjoint from the interval
  \<open>[startTime, endTime)\<close> of every existing session. The intervals are half-open: for a
  positive duration, a slot that starts where a session ends, or ends where a session starts,
  is not a conflict for the filter, so it can be returned.
\<close>

theorem suggestions_avoid_existing_sessions:
  "(\<forall>sg \<in> set (generateSuggestions tz now ty existingSessions ws durationMinutes lookAheadDays).
      \<forall>s \<in> set existingSessions.
        {sg_startTime sg ..< sg_startTime sg + durationMinutes * MS_PER_MINUTE}
          \<inter> {startTime s ..< endTime s} = {})
   \<and> (\<forall>startT (s :: Session). 0 < durationMinutes \<and> startTime s < endTime s \<and>
          (startT = endTime s \<or> startT + durationMinutes * MS_PER_MINUTE = startTime s)
        \<longrightarrow> \<not> hasConflict startT (addHours startT (of_int durationMinutes / 60)) [s])"
proof (intro conjI ballI allI impI)
  fix sg s
  assume sg: "sg \<in> set (generateSuggestions tz now ty existingSessions ws durationMinutes lookAheadDays)"
    and s: "s \<in> set existingSessions"
  from generateSuggestions_elem [OF sg] obtain st
    where st: "sg \<in> set (slotSuggestions tz ty existingSessions ws durationMinutes st)" ..
  from slotSuggestions_elem(3) [OF st] s
  have "\<not> conflictsWith st (st + durationMinutes * MS_PER_MINUTE) (startTime s) (endTime s)"
    by (auto simp: hasConflict_def list_ex_iff)
  then have "{st ..< st + durationMinutes * MS_PER_MINUTE} \<inter> {startTime s ..< endTime s} = {}"
    by (rule no_conflict_disjoint)
  then show "{sg_startTime sg ..< sg_startTime sg + durationMinutes * MS_PER_MINUTE}
               \<inter> {startTime s ..< endTime s} = {}"
    by (simp only: slotSuggestions_elem(1) [OF st])
next
  fix startT and s :: Session
  assume h: "0 < durationMinutes \<and> startTime s < endTime s \<and>
          (startT = endTime s \<or> startT + durationMinutes * MS_PER_MINUTE = startTime s)"
  then have "startT < startT + durationMinutes * MS_PER_MINUTE"
    by (simp add: MS_PER_MINUTE_def)
  with h have "\<not> conflictsWith startT (startT + durationMinutes * MS_PER_MINUTE) (startTime s) (endTime s)"
    by (intro touching_no_conflict) auto
  then show "\<not> hasConflict startT (addHours startT (of_int durationMinutes / 60)) [s]"
    by (simp add: hasConflict_def addHours_minutes)
qed

text \<open>
  On the Monday of the fixtures the best suggestion is the slot from 09:00 to 10:00, which
  ends where the meeting starts.
\<close>

theorem suggestions_avoid_existing_sessions_witness:
  "mondaySuggestions \<noteq> [] \<and>
   {sg_startTime (hd mondaySuggestions) ..< sg_startTime (hd mondaySuggestions) + 60 * MS_PER_MINUTE}
     \<inter> {startTime existingSession ..< endTime existingSession} = {} \<and>
   (0 :: int) < 60 \<and> startTime existingSession < endTime existingSession \<and>
   1705309200000 + 60 * MS_PER_MINUTE = startTime existingSession \<and>
   \<not> hasConflict 1705309200000 (addHours 1705309200000 (of_int 60 / 60)) [existingSession]"
proof -
  note inst = suggestions_avoid_existing_sessions
    [of 0 monday mockSessionType "[existingSession]" mockAvailabilityWindows 60 1]
  have mem: "hd mondaySuggestions
      \<in> set (generateSuggestions 0 monday mockSessionType [existingSession] mockAvailabilityWindows 60 1)"
    using mondaySuggestions_nonempty by (simp add: mondaySuggestions_def)
  have s: "existingSession \<in> set [existingSession]"
    by simp
  have touch: "(0 :: int) < 60 \<and> startTime existingSession < endTime existingSession \<and>
      (1705309200000 = endTime existingSession \<or>
       1705309200000 + 60 * MS_PER_MINUTE = startTime existingSession)"
    by (simp add: existingSession_def MS_PER_MINUTE_def)
  have e: "1705309200000 + 60 * MS_PER_MINUTE = startTime existingSession"
    by (simp add: existingSession_def MS_PER_MINUTE_def)
  from inst [THEN conjunct1, rule_format, OF mem s]
       inst [THEN conjunct2, rule_format, OF touch]
       mondaySuggestions_nonempty touch e
  show ?thesis by blast
qed

subsection \<open>Bounds on the scoring factors\<close>

lemma Math_round_lower: "rat_of_int k \<le> x \<Longrightarrow> k \<le> Math_round x"
  unfolding Math_round_def by (simp add: le_floor_iff)

lemma Math_round_upper: "x \<le> rat_of_int k \<Longrightarrow> Math_round x \<le> k"
  unfolding Math_round_def by (simp add: floor_le_iff) 

lemma calculateSpacingScore_le: "calculateSpacingScore ps pe ex \<le> 100"
  unfolding calculateSpacingScore_def by (simp add: Let_def split: option.split)

lemma calculateDayLoadScore_le: "calculateDayLoadScore tz d ex \<le> 100"
  unfolding calculateDayLoadScore_def by (simp add: Let_def)

lemma calculateAvailabilityScore_le: "calculateAvailabilityScore tz ps pe ws \<le> 100"
  unfolding calculateAvailabilityScore_def by (simp add: Let_def)

lemma calculateFatigueScore_le: "calculateFatigueScore ps p ex \<le> 100"
  unfolding calculateFatigueScore_def by (simp add: Let_def)

lemma calculatePriorityScore_le: "p \<le> 5 \<Longrightarrow> calculatePriorityScore p \<le> 100"
  unfolding calculatePriorityScore_def by simp

lemma scoreTimeSlot_le:
  assumes "priority ty \<le> 5"
  shows "scoreTimeSlot tz st en ty ex ws \<le> 100"
proof -
  note b = calculateSpacingScore_le [of st en ex] calculatePriorityScore_le [OF assms]
    calculateDayLoadScore_le [of tz st ex] calculateAvailabilityScore_le [of tz st en ws]
    calculateFatigueScore_le [of st "priority ty" ex]
  show ?thesis
    unfolding scoreTimeSlot_def Let_def using b by linarith
qed

subsection \<open>Ranking of the returned list\<close>

text \<open>
  Claim C2. For every input, \<open>generateSuggestions\<close> returns at most 10 suggestions, each
  with a score of at least 30, in descending order of score.
\<close>

theorem suggestions_ranked:
  "length (generateSuggestions tz now ty ex ws dur look) \<le> 10 \<and>
   (\<forall>sg \<in> set (generateSuggestions tz now ty ex ws dur look). score sg \<ge> 30) \<and>
   sorted_wrt (\<lambda>a b. score a \<ge> score b) (generateSuggestions tz now ty ex ws dur look)"
proof (intro conjI ballI)
  show "length (generateSuggestions tz now ty ex ws dur look) \<le> 10"
    unfolding generateSuggestions_def by simp
next
  fix sg
  assume "sg \<in> set (generateSuggestions tz now ty ex ws dur look)"
  from generateSuggestions_elem [OF this] obtain st
    where st: "sg \<in> set (slotSuggestions tz ty ex ws dur st)" ..
  have "rat_of_int 30 \<le> scoreTimeSlot tz st (st + dur * MS_PER_MINUTE) ty ex ws"
    using slotSuggestions_elem(4) [OF st] by simp
  then have "30 \<le> Math_round (scoreTimeSlot tz st (st + dur * MS_PER_MINUTE) ty ex ws)"
    by (rule Math_round_lower)
  then show "score sg \<ge> 30"
    by (simp only: slotSuggestions_elem(5) [OF st])
next
  let ?all = "allSuggestions tz now ty ex ws dur look"
  have "sorted (map (\<lambda>s. - score s) (sort_key (\<lambda>s. - score s) ?all))"
    by (rule sorted_sort_key)
  then have "sorted_wrt (\<lambda>a b. - score a \<le> - score b) (sort_key (\<lambda>s. - score s) ?all)"
    by (simp only: sorted_map)
  then have "sorted_wrt (\<lambda>a b. score a \<ge> score b) (sort_key (\<lambda>s. - score s) ?all)"
    by simp
  then show "sorted_wrt (\<lambda>a b. score a \<ge> score b) (generateSuggestions tz now ty ex ws dur look)"
    unfolding generateSuggestions_def by (rule sorted_wrt_take)
qed

theorem suggestions_ranked_witness:
  "mondaySuggestions \<noteq> [] \<and> length mondaySuggestions \<le> 10 \<and>
   30 \<le> score (hd mondaySuggestions) \<and>
   sorted_wrt (\<lambda>a b. score a \<ge> score b) mondaySuggestions"
proof -
  note inst = suggestions_ranked
    [of 0 monday mockSessionType "[existingSession]" mockAvailabilityWindows 60 1,
     folded mondaySuggestions_def]
  have "hd mondaySuggestions \<in> set mondaySuggestions"
    using mondaySuggestions_nonempty by simp
  with inst mondaySuggestions_nonempty show ?thesis
    by blast
qed

subsection \<open>Range of the returned scores\<close>

text \<open>
  Claim C10. The score of a returned suggestion is an integer, the weighted sum of the five
  factors rounded to the nearest integer, and it lies between 30 and 100: each factor is at
  most 100 and the weights add up to 1, so the sum is at most 100 without any clamping. The
  priority factor is \<open>priority / 5 * 100\<close>, which is at most 100 for the priorities of the
  data model (1 to 5, the range both session-type routes enforce); the bound is stated for
  a session type with \<open>priority \<le> 5\<close>.
\<close>

theorem suggestion_score_range:
  assumes "priority ty \<le> 5"
  shows "\<forall>sg \<in> set (generateSuggestions tz now ty ex ws dur look).
           (\<exists>st. score sg = Math_round (scoreTimeSlot tz st (addHours st (of_int dur / 60)) ty ex ws) \<and>
                 scoreTimeSlot tz st (addHours st (of_int dur / 60)) ty ex ws \<le> 100) \<and>
           30 \<le> score sg \<and> score sg \<le> 100"
proof
  fix sg
  assume "sg \<in> set (generateSuggestions tz now ty ex ws dur look)"
  from generateSuggestions_elem [OF this] obtain st
    where st: "sg \<in> set (slotSuggestions tz ty ex ws dur st)" ..
  let ?x = "scoreTimeSlot tz st (st + dur * MS_PER_MINUTE) ty ex ws"
  have eq: "score sg = Math_round ?x"
    by (rule slotSuggestions_elem(5) [OF st])
  have up: "?x \<le> rat_of_int 100"
    using scoreTimeSlot_le [OF assms, of tz st "st + dur * MS_PER_MINUTE" ex ws] by simp
  have lo: "rat_of_int 30 \<le> ?x"
    using slotSuggestions_elem(4) [OF st] by simp
  have "30 \<le> Math_round ?x"
    using lo by (rule Math_round_lower)
  moreover have "Math_round ?x \<le> 100"
    using up by (rule Math_round_upper)
  ultimately show "(\<exists>st. score sg = Math_round (scoreTimeSlot tz st (addHours st (of_int dur / 60)) ty ex ws) \<and>
                 scoreTimeSlot tz st (addHours st (of_int dur / 60)) ty ex ws \<le> 100) \<and>
           30 \<le> score sg \<and> score sg \<le> 100"
    using eq up by (auto simp: addHours_minutes)
qed

theorem suggestion_score_range_witness:
  "priority mockSessionType \<le> 5 \<and> mondaySuggestions \<noteq> [] \<and>
   30 \<le> score (hd mondaySuggestions) \<and> score (hd mondaySuggestions) \<le> 100"
proof -
  have p: "priority mockSessionType \<le> 5"
    by (simp add: mockSessionType_def)
  note inst = suggestion_score_range
    [OF p, of 0 monday "[existingSession]" mockAvailabilityWindows 60 1,
     folded mondaySuggestions_def]
  have "hd mondaySuggestions \<in> set mondaySuggestions"
    using mondaySuggestions_nonempty by simp
  with inst p mondaySuggestions_nonempty show ?thesis
    by blast
qed

subsection \<open>The default window\<close>

lemma slotsFrom_unfold:
  "slotsFrom c m e =
     (if c + m * MS_PER_MINUTE \<le> e then c # slotsFrom (c + 30 * MS_PER_MINUTE) m e else [])"
  by (subst slotsFrom.simps) (simp only: addHours_minutes addHours_half)

lemma slotsFrom_eq:
  "slotsFrom c m e =
     map (\<lambda>k. c + int k * (30 * MS_PER_MINUTE))
       [0 ..< nat ((e - (c + m * MS_PER_MINUTE)) div (30 * MS_PER_MINUTE) + 1)]"
proof (induction c m e rule: slotsFrom.induct)
  case (1 c m e)
  let ?h = "30 * MS_PER_MINUTE"
  let ?n = "\<lambda>c. nat ((e - (c + m * MS_PER_MINUTE)) div ?h + 1)"
  show ?case
  proof (cases "c + m * MS_PER_MINUTE \<le> e")
    case False
    then have "(e - (c + m * MS_PER_MINUTE)) div ?h < 0"
      by (simp add: MS_PER_MINUTE_def div_neg_pos_less0) 
    then have "?n c = 0" by simp
    with False show ?thesis
      by (subst slotsFrom_unfold) simp
  next
    case True
    then have le: "addHours c (of_int m / 60) \<le> e"
      by (simp add: addHours_minutes)
    have ih: "slotsFrom (c + ?h) m e = map (\<lambda>k. c + ?h + int k * ?h) [0 ..< ?n (c + ?h)]"
      using "1.IH" [OF le] by (simp only: addHours_half)
    have "(e - (c + m * MS_PER_MINUTE)) div ?h = (e - (c + ?h + m * MS_PER_MINUTE)) div ?h + 1"
      by (simp add: MS_PER_MINUTE_def) 
    moreover have "0 \<le> (e - (c + m * MS_PER_MINUTE)) div ?h"
      using True by (simp add: MS_PER_MINUTE_def pos_imp_zdiv_nonneg_iff)
    ultimately have n: "?n c = Suc (?n (c + ?h))"
      by linarith
    have "slotsFrom c m e = c # slotsFrom (c + ?h) m e"
      using True by (subst slotsFrom_unfold) simp
    also have "\<dots> = c # map (\<lambda>k. c + ?h + int k * ?h) [0 ..< ?n (c + ?h)]"
      by (simp only: ih)
    also have "\<dots> = map (\<lambda>k. c + int k * ?h) (0 # map Suc [0 ..< ?n (c + ?h)])"
      by (simp add: algebra_simps)
    also have "0 # map Suc [0 ..< ?n (c + ?h)] = [0 ..< ?n c]"
      unfolding n by (simp add: upt_conv_Cons map_Suc_upt del: upt_Suc)
    finally show ?thesis .
  qed
qed


lemma in_concat_map:
  assumes "x \<in> set xs" and "y \<in> set (f x)"
  shows "y \<in> set (concat (map f xs))"
  using assms by auto

lemma default_window_slots:
  assumes "filter (\<lambda>w. dayOfWeek w = getDay tz d) ws = []"
  shows "generateTimeSlots tz d 60 ws =
           map (\<lambda>k. setHours tz d 6 0 0 0 + int k * (30 * MS_PER_MINUTE)) [0 ..< 31]"
proof -
  have "(setHours tz d 22 0 0 0 - (setHours tz d 6 0 0 0 + 60 * MS_PER_MINUTE))
          div (30 * MS_PER_MINUTE) = 30"
    by (simp add: setHours_def MS_PER_MINUTE_def MS_PER_HOUR_def)
  then have "nat ((setHours tz d 22 0 0 0 - (setHours tz d 6 0 0 0 + 60 * MS_PER_MINUTE))
          div (30 * MS_PER_MINUTE) + 1) = 31"
    by simp
  then show ?thesis
    unfolding generateTimeSlots_def Let_def
    by (simp only: assms list.size slotsFrom_eq) simp
qed

lemma scoreTimeSlot_no_data:
  "scoreTimeSlot tz st en ty [] [] = 145 / 2 + 3 * of_int (priority ty)"
  by (simp add: scoreTimeSlot_def calculateSpacingScore_def calculatePriorityScore_def
      calculateDayLoadScore_def calculateAvailabilityScore_def calculateFatigueScore_def
      MAX_SESSIONS_PER_DAY_def Let_def)

lemma slotSuggestions_no_data:
  assumes "1 \<le> priority ty"
  shows "slotSuggestions tz ty [] [] dur st \<noteq> []"
proof -
  have "(30 :: rat) \<le> 145 / 2 + 3 * of_int (priority ty)"
    using assms by simp
  then show ?thesis
    by (simp add: slotSuggestions_def Let_def hasConflict_def scoreTimeSlot_no_data)
qed

text \<open>
  Claim C5. With no availability windows, no existing sessions, the default duration of 60
  minutes and a look-ahead of at least one day, \<open>generateSuggestions\<close> returns a
  non-empty list, for every session type of the data model (priority at least 1). On a day
  whose weekday no window matches, the slots are those of a default window from 06:00 to
  22:00 in steps of 30 minutes: 06:00, 06:30, up to 21:00.
\<close>

theorem fallback_availability:
  assumes "1 \<le> lookAheadDays" and "1 \<le> priority ty"
  shows "generateSuggestions tz now ty [] [] 60 lookAheadDays \<noteq> [] \<and>
         (\<forall>d ws. filter (\<lambda>w. dayOfWeek w = getDay tz d) ws = [] \<longrightarrow>
            generateTimeSlots tz d 60 ws =
              map (\<lambda>k. setHours tz d 6 0 0 0 + int k * (30 * MS_PER_MINUTE)) [0 ..< 31])"
proof (intro conjI allI impI)
  let ?today = "setHours tz now 0 0 0 0"
  let ?d = "addHours ?today (of_int (0 * 24))"
  let ?slot = "setHours tz ?d 6 0 0 0"
  have "generateTimeSlots tz ?d 60 []
          = map (\<lambda>k. ?slot + int k * (30 * MS_PER_MINUTE)) [0 ..< 31]"
    by (rule default_window_slots) simp
  then have slot: "?slot \<in> set (generateTimeSlots tz ?d 60 [])"
    by (simp add: upt_conv_Cons)
  define sg where "sg = hd (slotSuggestions tz ty [] [] 60 ?slot)"
  have sg: "sg \<in> set (slotSuggestions tz ty [] [] 60 ?slot)"
    unfolding sg_def using slotSuggestions_no_data [OF assms(2)] by (rule hd_in_set)
  have day: "(0 :: int) \<in> set [0 .. lookAheadDays - 1]"
    using assms(1) by simp
  have inner: "sg \<in> set (concat (map (slotSuggestions tz ty [] [] 60)
                                     (generateTimeSlots tz ?d 60 [])))"
    using slot sg by (rule in_concat_map)
  have "sg \<in> set (concat (map (\<lambda>dayOffset.
           concat (map (slotSuggestions tz ty [] [] 60)
             (generateTimeSlots tz (addHours ?today (of_int (dayOffset * 24))) 60 [])))
           [0 .. lookAheadDays - 1]))"
    using day inner by (rule in_concat_map)
  then have "sg \<in> set (allSuggestions tz now ty [] [] 60 lookAheadDays)"
    unfolding allSuggestions_def Let_def .
  then have "allSuggestions tz now ty [] [] 60 lookAheadDays \<noteq> []"
    by auto
  then have "sort_key (\<lambda>s. - score s) (allSuggestions tz now ty [] [] 60 lookAheadDays) \<noteq> []"
    by (simp only: length_0_conv [symmetric] length_sort) simp
  then show "generateSuggestions tz now ty [] [] 60 lookAheadDays \<noteq> []"
    unfolding generateSuggestions_def by (simp add: take_eq_Nil)
next
  fix d and ws :: "AvailabilityWindow list"
  assume "filter (\<lambda>w. dayOfWeek w = getDay tz d) ws = []"
  then show "generateTimeSlots tz d 60 ws =
              map (\<lambda>k. setHours tz d 6 0 0 0 + int k * (30 * MS_PER_MINUTE)) [0 ..< 31]"
    by (rule default_window_slots)
qed

theorem fallback_availability_witness:
  "(1 :: int) \<le> 7 \<and> 1 \<le> priority mockSessionType \<and>
   generateSuggestions 0 monday mockSessionType [] [] 60 7 \<noteq> [] \<and>
   filter (\<lambda>w. dayOfWeek w = getDay 0 (monday + MS_PER_DAY)) mockAvailabilityWindows = [] \<and>
   generateTimeSlots 0 (monday + MS_PER_DAY) 60 mockAvailabilityWindows =
     map (\<lambda>k. setHours 0 (monday + MS_PER_DAY) 6 0 0 0 + int k * (30 * MS_PER_MINUTE)) [0 ..< 31]"
proof -
  have l: "(1 :: int) \<le> 7"
    by simp
  have p: "1 \<le> priority mockSessionType"
    by (simp add: mockSessionType_def)
  have f: "filter (\<lambda>w. dayOfWeek w = getDay 0 (monday + MS_PER_DAY)) mockAvailabilityWindows = []"
    by (simp add: mockAvailabilityWindows_def getDay_def monday_def MS_PER_DAY_def)
  note inst = fallback_availability [OF l p, of 0 monday]
  from inst [THEN conjunct1] inst [THEN conjunct2, rule_format, OF f] l p f
  show ?thesis by blast
qed

subsection \<open>Completion rate\<close>




subsection \<open>Creating a session\<close>

lemma POST_409_only_on_overlap:
  assumes "fst (fst (POST newId db request)) = 409"
  shows "\<exists>body startT endT s. request = Some body \<and> req_startTime body = Some startT \<and>
           req_endTime body = Some endT \<and> s \<in> set (db_sessions db) \<and>
           routeOverlap startT endT (startTime s) (endTime s)"
proof -
  from assms obtain body where b: "request = Some body"
    by (cases request) (auto simp: POST_def)
  from assms b obtain ty where ty: "find (\<lambda>t. st_id t = req_sessionTypeId body) (db_sessionTypes db) = Some ty"
    by (cases "find (\<lambda>t. st_id t = req_sessionTypeId body) (db_sessionTypes db)") (auto simp: POST_def)
  from assms b ty obtain startT endT
    where t: "req_startTime body = Some startT" "req_endTime body = Some endT"
    by (cases "req_startTime body"; cases "req_endTime body") (auto simp: POST_def)
  from assms b ty t
  have "filter (\<lambda>s. startTime s < endT \<and> endTime s > startT) (db_sessions db) \<noteq> []"
    by (auto simp: POST_def Let_def split: if_splits)
  then obtain s where "s \<in> set (db_sessions db)" "startTime s < endT \<and> endTime s > startT"
    by (auto simp: filter_empty_conv)
  with b t show ?thesis
    by (auto simp: routeOverlap_def)
qed

lemma POST_valid:
  assumes "find (\<lambda>t. st_id t = req_sessionTypeId body) (db_sessionTypes db) = Some ty"
    and "req_startTime body = Some startT" and "req_endTime body = Some endT"
    and "startT < endT"
  shows "POST newId db (Some body) =
     (let conflicts = filter (\<lambda>s. routeOverlap startT endT (startTime s) (endTime s)) (db_sessions db)
      in if conflicts \<noteq> []
         then ((409, ConflictBody ''Session conflicts with existing sessions'' conflicts), db)
         else ((201, SessionBody \<lparr> s_id = newId, sessionTypeId = req_sessionTypeId body,
                                   sessionType = ty, startTime = startT, endTime = endT,
                                   completed = False \<rparr>),
               db\<lparr> db_sessions := db_sessions db @
                     [\<lparr> s_id = newId, sessionTypeId = req_sessionTypeId body,
                        sessionType = ty, startTime = startT, endTime = endT,
                        completed = False \<rparr>] \<rparr>))"
  using assms by (simp add: POST_def Let_def routeOverlap_def)

lemma hasConflict_iff_routeOverlap:
  assumes "startT < endT" and "\<forall>s \<in> set sessions. startTime s < endTime s"
  shows "hasConflict startT endT sessions
           \<longleftrightarrow> (\<exists>s \<in> set sessions. routeOverlap startT endT (startTime s) (endTime s))"
proof -
  have "conflictsWith startT endT (startTime s) (endTime s)
          \<longleftrightarrow> routeOverlap startT endT (startTime s) (endTime s)"
    if "s \<in> set sessions" for s
    using assms that unfolding conflictsWith_def routeOverlap_def by fastforce
  then show ?thesis
    by (auto simp: hasConflict_def list_ex_iff)
qed


lemma POST_not_found:
  assumes "find (\<lambda>t. st_id t = req_sessionTypeId body) (db_sessionTypes db) = None"
  shows "POST newId db (Some body) = ((404, ErrorBody ''Session type not found''), db)"
  using assms by (simp add: POST_def)

lemma POST_bad_times:
  assumes "find (\<lambda>t. st_id t = req_sessionTypeId body) (db_sessionTypes db) = Some ty"
    and "\<not> isAfter (req_endTime body) (req_startTime body)"
  shows "POST newId db (Some body) = ((400, ErrorBody ''End time must be after start time''), db)"
  using assms by (simp add: POST_def)

text \<open>
  Claim C7. The create operation answers 409, the conflict status, only when the requested
  interval overlaps a stored session (\<open>startTime < requested end\<close> and
  \<open>endTime > requested start\<close>). An unknown session type is answered 404 and an end
  that is not after the start 400. For a known type and an end after the start, the request
  is answered 409 with the overlapping sessions when there is one, and the state is
  unchanged; otherwise it is answered 201 and the new session is stored. When the stored
  sessions have positive durations, the overlap test of the route agrees with the conflict
  test of the suggestion engine.
\<close>

theorem create_rejects_overlap:
  "(fst (fst (POST newId db request)) = 409 \<longrightarrow>
      (\<exists>body startT endT s. request = Some body \<and> req_startTime body = Some startT \<and>
         req_endTime body = Some endT \<and> s \<in> set (db_sessions db) \<and>
         routeOverlap startT endT (startTime s) (endTime s))) \<and>
   (find (\<lambda>t. st_id t = req_sessionTypeId body) (db_sessionTypes db) = None \<longrightarrow>
      fst (fst (POST newId db (Some body))) = 404) \<and>
   (find (\<lambda>t. st_id t = req_sessionTypeId body) (db_sessionTypes db) = Some ty \<and>
    \<not> isAfter (req_endTime body) (req_startTime body) \<longrightarrow>
      fst (fst (POST newId db (Some body))) = 400) \<and>
   (find (\<lambda>t. st_id t = req_sessionTypeId body) (db_sessionTypes db) = Some ty \<and>
    req_startTime body = Some startT \<and> req_endTime body = Some endT \<and> startT < endT \<longrightarrow>
      ((\<exists>s \<in> set (db_sessions db). routeOverlap startT endT (startTime s) (endTime s)) \<longrightarrow>
         POST newId db (Some body) =
           ((409, ConflictBody ''Session conflicts with existing sessions''
                    (filter (\<lambda>s. routeOverlap startT endT (startTime s) (endTime s))
                       (db_sessions db))), db)) \<and>
      (\<not> (\<exists>s \<in> set (db_sessions db). routeOverlap startT endT (startTime s) (endTime s)) \<longrightarrow>
         POST newId db (Some body) =
           ((201, SessionBody \<lparr> s_id = newId, sessionTypeId = req_sessionTypeId body,
                                 sessionType = ty, startTime = startT, endTime = endT,
                                 completed = False \<rparr>),
            db\<lparr> db_sessions := db_sessions db @
                  [\<lparr> s_id = newId, sessionTypeId = req_sessionTypeId body,
                     sessionType = ty, startTime = startT, endTime = endT,
                     completed = False \<rparr>] \<rparr>)) \<and>
      ((\<forall>s \<in> set (db_sessions db). startTime s < endTime s) \<longrightarrow>
         (hasConflict startT endT (db_sessions db)
            \<longleftrightarrow> (\<exists>s \<in> set (db_sessions db). routeOverlap startT endT (startTime s) (endTime s)))))"
proof (intro conjI impI)
  assume "fst (fst (POST newId db request)) = 409"
  then show "\<exists>body startT endT s. request = Some body \<and> req_startTime body = Some startT \<and>
         req_endTime body = Some endT \<and> s \<in> set (db_sessions db) \<and>
         routeOverlap startT endT (startTime s) (endTime s)"
    by (rule POST_409_only_on_overlap)
next
  assume "find (\<lambda>t. st_id t = req_sessionTypeId body) (db_sessionTypes db) = None"
  then show "fst (fst (POST newId db (Some body))) = 404"
    by (simp add: POST_not_found)
next
  assume "find (\<lambda>t. st_id t = req_sessionTypeId body) (db_sessionTypes db) = Some ty \<and>
    \<not> isAfter (req_endTime body) (req_startTime body)"
  then show "fst (fst (POST newId db (Some body))) = 400"
    by (simp add: POST_bad_times)
next
  assume v: "find (\<lambda>t. st_id t = req_sessionTypeId body) (db_sessionTypes db) = Some ty \<and>
    req_startTime body = Some startT \<and> req_endTime body = Some endT \<and> startT < endT"
  then have p: "POST newId db (Some body) =
     (let conflicts = filter (\<lambda>s. routeOverlap startT endT (startTime s) (endTime s)) (db_sessions db)
      in if conflicts \<noteq> []
         then ((409, ConflictBody ''Session conflicts with existing sessions'' conflicts), db)
         else ((201, SessionBody \<lparr> s_id = newId, sessionTypeId = req_sessionTypeId body,
                                   sessionType = ty, startTime = startT, endTime = endT,
                                   completed = False \<rparr>),
               db\<lparr> db_sessions := db_sessions db @
                     [\<lparr> s_id = newId, sessionTypeId = req_sessionTypeId body,
                        sessionType = ty, startTime = startT, endTime = endT,
                        completed = False \<rparr>] \<rparr>))"
    by (intro POST_valid) simp_all
  {
    assume "\<exists>s \<in> set (db_sessions db). routeOverlap startT endT (startTime s) (endTime s)"
    then have "filter (\<lambda>s. routeOverlap startT endT (startTime s) (endTime s)) (db_sessions db) \<noteq> []"
      by (simp add: filter_empty_conv)
    then show "POST newId db (Some body) =
           ((409, ConflictBody ''Session conflicts with existing sessions''
                    (filter (\<lambda>s. routeOverlap startT endT (startTime s) (endTime s))
                       (db_sessions db))), db)"
      unfolding p by (simp add: Let_def)
  }
  {
    assume "\<not> (\<exists>s \<in> set (db_sessions db). routeOverlap startT endT (startTime s) (endTime s))"
    then have "filter (\<lambda>s. routeOverlap startT endT (startTime s) (endTime s)) (db_sessions db) = []"
      by (simp add: filter_empty_conv)
    then show "POST newId db (Some body) =
           ((201, SessionBody \<lparr> s_id = newId, sessionTypeId = req_sessionTypeId body,
                                 sessionType = ty, startTime = startT, endTime = endT,
                                 completed = False \<rparr>),
            db\<lparr> db_sessions := db_sessions db @
                  [\<lparr> s_id = newId, sessionTypeId = req_sessionTypeId body,
                     sessionType = ty, startTime = startT, endTime = endT,
                     completed = False \<rparr>] \<rparr>)"
      unfolding p by (simp add: Let_def)
  }
  {
    assume "\<forall>s \<in> set (db_sessions db). startTime s < endTime s"
    with v show "hasConflict startT endT (db_sessions db)
            \<longleftrightarrow> (\<exists>s \<in> set (db_sessions db). routeOverlap startT endT (startTime s) (endTime s))"
      by (intro hasConflict_iff_routeOverlap) simp_all
  }
qed

theorem create_rejects_overlap_witness:
  "POST ''session-2'' exampleDatabase (Some overlappingRequest) =
     ((409, ConflictBody ''Session conflicts with existing sessions'' [existingSession]),
      exampleDatabase) \<and>
   POST ''session-2'' exampleDatabase (Some laterRequest) =
     ((201, SessionBody \<lparr> s_id = ''session-2'', sessionTypeId = ''type-1'',
                           sessionType = mockSessionType, startTime = 1705320000000,
                           endTime = 1705323600000, completed = False \<rparr>),
      exampleDatabase\<lparr> db_sessions := [existingSession,
         \<lparr> s_id = ''session-2'', sessionTypeId = ''type-1'',
           sessionType = mockSessionType, startTime = 1705320000000,
           endTime = 1705323600000, completed = False \<rparr>] \<rparr>) \<and>
   hasConflict 1705314600000 1705318200000 (db_sessions exampleDatabase) \<and>
   \<not> hasConflict 1705320000000 1705323600000 (db_sessions exampleDatabase)"
proof -
  have v1: "find (\<lambda>t. st_id t = req_sessionTypeId overlappingRequest) (db_sessionTypes exampleDatabase)
              = Some mockSessionType \<and>
            req_startTime overlappingRequest = Some 1705314600000 \<and>
            req_endTime overlappingRequest = Some 1705318200000 \<and>
            (1705314600000 :: int) < 1705318200000"
    by (simp add: overlappingRequest_def exampleDatabase_def mockSessionType_def)
  have v2: "find (\<lambda>t. st_id t = req_sessionTypeId laterRequest) (db_sessionTypes exampleDatabase)
              = Some mockSessionType \<and>
            req_startTime laterRequest = Some 1705320000000 \<and>
            req_endTime laterRequest = Some 1705323600000 \<and>
            (1705320000000 :: int) < 1705323600000"
    by (simp add: laterRequest_def exampleDatabase_def mockSessionType_def)
  have o1: "\<exists>s \<in> set (db_sessions exampleDatabase).
              routeOverlap 1705314600000 1705318200000 (startTime s) (endTime s)"
    by (simp add: exampleDatabase_def existingSession_def routeOverlap_def)
  have o2: "\<not> (\<exists>s \<in> set (db_sessions exampleDatabase).
              routeOverlap 1705320000000 1705323600000 (startTime s) (endTime s))"
    by (simp add: exampleDatabase_def existingSession_def routeOverlap_def)
  have w: "\<forall>s \<in> set (db_sessions exampleDatabase). startTime s < endTime s"
    by (simp add: exampleDatabase_def existingSession_def)
  note i1 = create_rejects_overlap [THEN conjunct2, THEN conjunct2, THEN conjunct2, rule_format, OF v1]
  note i2 = create_rejects_overlap [THEN conjunct2, THEN conjunct2, THEN conjunct2, rule_format, OF v2]
  have f: "filter (\<lambda>s. routeOverlap 1705314600000 1705318200000 (startTime s) (endTime s))
             (db_sessions exampleDatabase) = [existingSession]"
    by (simp add: exampleDatabase_def existingSession_def routeOverlap_def)
  have r1: "POST ''session-2'' exampleDatabase (Some overlappingRequest) =
     ((409, ConflictBody ''Session conflicts with existing sessions'' [existingSession]),
      exampleDatabase)"
    using i1 [THEN conjunct1, rule_format, OF o1] by (simp only: f)
  have r2: "POST ''session-2'' exampleDatabase (Some laterRequest) =
     ((201, SessionBody \<lparr> s_id = ''session-2'', sessionTypeId = ''type-1'',
                           sessionType = mockSessionType, startTime = 1705320000000,
                           endTime = 1705323600000, completed = False \<rparr>),
      exampleDatabase\<lparr> db_sessions := [existingSession,
         \<lparr> s_id = ''session-2'', sessionTypeId = ''type-1'',
           sessionType = mockSessionType, startTime = 1705320000000,
           endTime = 1705323600000, completed = False \<rparr>] \<rparr>)"
    using i2 [THEN conjunct2, THEN conjunct1, rule_format, OF o2]
    by (simp add: laterRequest_def exampleDatabase_def)
  have h1: "hasConflict 1705314600000 1705318200000 (db_sessions exampleDatabase)"
    using i1 [THEN conjunct2, THEN conjunct2, THEN mp, OF w] o1 by simp
  have h2: "\<not> hasConflict 1705320000000 1705323600000 (db_sessions exampleDatabase)"
    using i2 [THEN conjunct2, THEN conjunct2, THEN mp, OF w] o2 by simp
  from r1 r2 h1 h2 show ?thesis by simp
qed

subsection \<open>The spacing factor next to an existing session\<close>

text \<open>
  Where the floor of two hours works and where it does not: a session that ended between one
  and two hours before the candidate starts brings the factor to 0; when every session is
  less than a whole hour away on both sides, the factor is 100.
\<close>

lemma min_inf_Some_le:
  "min_inf (Some v) y = Some m \<Longrightarrow> m \<le> v"
  "min_inf x (Some v) = Some m \<Longrightarrow> m \<le> v"
  by (cases y; auto) (cases x; auto)

lemma Math_min_le:
  assumes "Some v \<in> set xs"
  shows "\<exists>m. Math_min xs = Some m \<and> m \<le> v"
  using assms
proof (induction xs)
  case Nil
  then show ?case by simp
next
  case (Cons x xs)
  show ?case
  proof (cases "x = Some v")
    case True
    then show ?thesis
      by (cases "Math_min xs") (auto simp: Math_min_def)
  next
    case False
    with Cons obtain m where "Math_min xs = Some m" "m \<le> v"
      by auto
    then show ?thesis
      by (cases x) (auto simp: Math_min_def)
  qed
qed

lemma spacing_score_one_to_two_hours:
  assumes "s \<in> set existingSessions"
    and "endTime s + MS_PER_HOUR \<le> proposedStart"
    and "proposedStart < endTime s + 2 * MS_PER_HOUR"
  shows "calculateSpacingScore proposedStart proposedEnd existingSessions = 0"
proof -
  have "(proposedStart - endTime s) div MS_PER_HOUR = 1"
    using assms(2,3) unfolding MS_PER_HOUR_def by (intro int_div_pos_eq [where r = "proposedStart - endTime s - 3600000"]) simp_all
  then have "differenceInHours proposedStart (endTime s) = 1"
    using assms(2) by (simp add: differenceInHours_def MS_PER_HOUR_def)
  then obtain v where "sessionSpacing proposedStart proposedEnd s = Some v" and "v \<le> 1"
    unfolding sessionSpacing_def Let_def by (auto simp: min_def)
  then have "\<exists>v \<le> 1. Some v \<in> set (map (sessionSpacing proposedStart proposedEnd) existingSessions)"
    using assms(1) by force
  then obtain m where "Math_min (map (sessionSpacing proposedStart proposedEnd) existingSessions) = Some m"
    and "m \<le> 1"
    using Math_min_le by fastforce
  with assms(1) show ?thesis
    by (auto simp: calculateSpacingScore_def Let_def MIN_SPACING_HOURS_def)
qed


lemma Math_min_all_None:
  assumes "\<forall>x \<in> set xs. x = None"
  shows "Math_min xs = None"
  using assms by (induction xs) (auto simp: Math_min_def)

lemma spacing_score_all_under_an_hour:
  assumes "\<forall>s \<in> set existingSessions.
             proposedStart < endTime s + MS_PER_HOUR \<and> startTime s < proposedEnd + MS_PER_HOUR"
  shows "calculateSpacingScore proposedStart proposedEnd existingSessions = 100"
proof -
  have "sessionSpacing proposedStart proposedEnd s = None" if "s \<in> set existingSessions" for s
  proof -
    from assms that have "\<not> endTime s + MS_PER_HOUR \<le> proposedStart"
      and "\<not> proposedEnd + MS_PER_HOUR \<le> startTime s"
      by auto
    then show ?thesis
      by (simp add: sessionSpacing_def Let_def differenceInHours_pos_iff)
  qed
  then have "Math_min (map (sessionSpacing proposedStart proposedEnd) existingSessions) = None"
    by (intro Math_min_all_None) auto
  then show ?thesis
    by (simp add: calculateSpacingScore_def Let_def)
qed

text \<open>
  Claim C3 says the spacing factor is 0 whenever the smallest positive gap to an existing
  session is below two hours. \<open>differenceInHours\<close> truncates to whole hours, so a gap
  of less than one hour has distance 0, fails the test \<open>distance > 0\<close> and counts as
  \<open>Infinity\<close>. A candidate that starts 30 minutes after the only existing session ends
  (11:30 after a meeting from 10:00 to 11:00) gets the factor 100, not 0.
\<close>

theorem spacing_score_half_hour_after_session:
  "endTime existingSession < endTime existingSession + 30 * MS_PER_MINUTE \<and>
   endTime existingSession + 30 * MS_PER_MINUTE < endTime existingSession + 2 * MS_PER_HOUR \<and>
   calculateSpacingScore (endTime existingSession + 30 * MS_PER_MINUTE)
     (endTime existingSession + 90 * MS_PER_MINUTE) [existingSession] = 100"
  by code_simp

subsection \<open>Average spacing\<close>






subsection \<open>The reason text\<close>












end
